theory Spec2Isabelle
  imports Complex_Main
begin

section \<open>Numbers of the scripting language\<close>

text \<open>
  The program computes with IEEE doubles. They are idealised here: a finite number is a
  real (no rounding, no signed zero), and the three non-finite values are kept apart,
  since the program can produce them by dividing by zero and by reading a typed array
  outside its bounds.
\<close>

datatype jsnum = Num real | NaN | PosInf | NegInf

text \<open>\<^verbatim>\<open>a / b\<close> on two finite numbers.\<close>

definition js_div :: "real \<Rightarrow> real \<Rightarrow> jsnum" where
  "js_div a b =
     (if b \<noteq> 0 then Num (a / b)
      else if a = 0 then NaN
      else if 0 < a then PosInf else NegInf)"

text \<open>\<^verbatim>\<open>a * b\<close> with a finite right operand.\<close>

fun js_times :: "jsnum \<Rightarrow> real \<Rightarrow> jsnum" where
  "js_times (Num a) b = Num (a * b)"
| "js_times NaN b = NaN"
| "js_times PosInf b = (if b = 0 then NaN else if 0 < b then PosInf else NegInf)"
| "js_times NegInf b = (if b = 0 then NaN else if 0 < b then NegInf else PosInf)"

text \<open>\<^verbatim>\<open>a + b\<close>.\<close>

fun js_plus :: "jsnum \<Rightarrow> jsnum \<Rightarrow> jsnum" where
  "js_plus (Num a) (Num b) = Num (a + b)"
| "js_plus NaN b = NaN"
| "js_plus a NaN = NaN"
| "js_plus PosInf NegInf = NaN"
| "js_plus NegInf PosInf = NaN"
| "js_plus PosInf b = PosInf"
| "js_plus a PosInf = PosInf"
| "js_plus NegInf b = NegInf"
| "js_plus a NegInf = NegInf"

text \<open>
  \<^verbatim>\<open>heightMap[k]\<close> on a Float32Array, read as a number: an index outside the array
  gives \<^verbatim>\<open>undefined\<close>, which the multiplication that follows every read in the
  program turns into NaN.
\<close>

definition js_read :: "jsnum list \<Rightarrow> int \<Rightarrow> jsnum" where
  "js_read a k = (if 0 \<le> k \<and> k < int (length a) then a ! nat k else NaN)"

text \<open>
  Failures. \<open>InvalidInput\<close> is the condition the specification speaks of; the source
  has no \<^verbatim>\<open>throw\<close>. \<open>TypeError\<close> is what the language raises when a
  method that an object does not have is called.
\<close>

datatype error = InvalidInput | TypeError


section \<open>The grid-backed height sampler\<close>

text \<open>
  \<^verbatim>\<open>createTerrain\<close> fixes \<^verbatim>\<open>size = 1000\<close>, \<^verbatim>\<open>resolution = 128\<close> and
  \<^verbatim>\<open>maxHeight = 30\<close> and assigns the closure below to \<^verbatim>\<open>this.getHeightAtPosition\<close>.
  The closure is embedded with the resolution as a parameter, the height map being the
  \<open>resolution \<times> resolution\<close> array of \<^verbatim>\<open>generateHeightMap\<close>.
\<close>

definition terrain_size :: real where
  "terrain_size = 1000"

definition maxHeight :: real where
  "maxHeight = 30"

definition terrain_resolution :: nat where
  "terrain_resolution = 128"

text \<open>\<^verbatim>\<open>(x + size / 2) / size\<close>\<close>

definition terrainCoord :: "real \<Rightarrow> real" where
  "terrainCoord x = (x + terrain_size / 2) / terrain_size"

text \<open>\<^verbatim>\<open>terrainX < 0 || terrainX > 1 || terrainZ < 0 || terrainZ > 1\<close>\<close>

definition outsideTerrain :: "real \<Rightarrow> real \<Rightarrow> bool" where
  "outsideTerrain terrainX terrainZ \<longleftrightarrow>
     terrainX < 0 \<or> terrainX > 1 \<or> terrainZ < 0 \<or> terrainZ > 1"

text \<open>\<^verbatim>\<open>Math.min(Math.floor(terrainX * (resolution - 1)), resolution - 2)\<close>\<close>

definition cellIndex :: "nat \<Rightarrow> real \<Rightarrow> int" where
  "cellIndex resolution t =
     min \<lfloor>t * (real resolution - 1)\<rfloor> (int resolution - 2)"

text \<open>\<^verbatim>\<open>(terrainX * (resolution - 1)) - xIndex\<close>\<close>

definition cellFrac :: "nat \<Rightarrow> real \<Rightarrow> real" where
  "cellFrac resolution t =
     t * (real resolution - 1) - real_of_int (cellIndex resolution t)"

text \<open>The four indices read for the corners \<open>h00\<close>, \<open>h10\<close>, \<open>h01\<close>, \<open>h11\<close>, in this order.\<close>

definition cornerIndices :: "nat \<Rightarrow> int \<Rightarrow> int \<Rightarrow> int \<times> int \<times> int \<times> int" where
  "cornerIndices resolution xIndex zIndex =
     (zIndex * int resolution + xIndex,
      zIndex * int resolution + xIndex + 1,
      (zIndex + 1) * int resolution + xIndex,
      (zIndex + 1) * int resolution + xIndex + 1)"

definition gridSampler :: "nat \<Rightarrow> jsnum list \<Rightarrow> real \<Rightarrow> real \<Rightarrow> jsnum" where
  "gridSampler resolution heightMap x z =
     (let terrainX = terrainCoord x;
          terrainZ = terrainCoord z
      in if outsideTerrain terrainX terrainZ then Num 0
         else
           let xIndex = cellIndex resolution terrainX;
               zIndex = cellIndex resolution terrainZ;
               xFrac = cellFrac resolution terrainX;
               zFrac = cellFrac resolution terrainZ;
               (i00, i10, i01, i11) = cornerIndices resolution xIndex zIndex;
               h00 = js_times (js_read heightMap i00) maxHeight;
               h10 = js_times (js_read heightMap i10) maxHeight;
               h01 = js_times (js_read heightMap i01) maxHeight;
               h11 = js_times (js_read heightMap i11) maxHeight;
               h0 = js_plus (js_times h00 (1 - xFrac)) (js_times h10 xFrac);
               h1 = js_plus (js_times h01 (1 - xFrac)) (js_times h11 xFrac);
               height = js_plus (js_times h0 (1 - zFrac)) (js_times h1 zFrac)
           in height)"

text \<open>The closure as \<^verbatim>\<open>createTerrain\<close> builds it.\<close>

definition getHeightAtPosition_grid :: "jsnum list \<Rightarrow> real \<Rightarrow> real \<Rightarrow> jsnum" where
  "getHeightAtPosition_grid heightMap = gridSampler terrain_resolution heightMap"



section \<open>Height map generation\<close>

text \<open>
  \<^verbatim>\<open>generateHeightMap(width, height)\<close>. The noise object comes from the rendering
  library and the third noise coordinate from \<^verbatim>\<open>Math.random() * 100\<close>; both are
  parameters here (\<open>perlin\<close>, \<open>z\<close>). The array sizes are natural numbers: the typed
  array constructor accepts nothing else.
\<close>

text \<open>
  One pass of the inner loop:
  \<^verbatim>\<open>data[i] += Math.abs(perlin.noise(x / quality, y / quality, z) * quality)\<close>
  with \<^verbatim>\<open>x = i % width\<close> and \<^verbatim>\<open>y = ~~(i / width)\<close>.
\<close>

definition addSample ::
  "(real \<Rightarrow> real \<Rightarrow> real \<Rightarrow> real) \<Rightarrow> real \<Rightarrow> nat \<Rightarrow> real \<Rightarrow> nat \<Rightarrow> real list \<Rightarrow> real list" where
  "addSample perlin z width quality i data =
     (let x = i mod width;
          y = i div width
      in data[i := data ! i + \<bar>perlin (real x / quality) (real y / quality) z * quality\<bar>])"

text \<open>The outer loop: \<open>steps\<close> octaves, \<^verbatim>\<open>quality *= 4\<close> after each.\<close>

fun octaveLoop ::
  "(real \<Rightarrow> real \<Rightarrow> real \<Rightarrow> real) \<Rightarrow> real \<Rightarrow> nat \<Rightarrow> nat \<Rightarrow> real \<Rightarrow> real list \<Rightarrow> real list" where
  "octaveLoop perlin z width 0 quality data = data"
| "octaveLoop perlin z width (Suc steps) quality data =
     octaveLoop perlin z width steps (quality * 4)
       (fold (addSample perlin z width quality) [0..<length data] data)"

text \<open>The array before it is normalised: zero-filled, then four octaves from quality 1.\<close>

definition accumulateNoise ::
  "(real \<Rightarrow> real \<Rightarrow> real \<Rightarrow> real) \<Rightarrow> real \<Rightarrow> nat \<Rightarrow> nat \<Rightarrow> real list" where
  "accumulateNoise perlin z width height =
     octaveLoop perlin z width 4 1 (replicate (width * height) 0)"

text \<open>
  \<^verbatim>\<open>Math.min(...data)\<close>, \<^verbatim>\<open>Math.max(...data)\<close>, then
  \<^verbatim>\<open>data[i] = (data[i] - min) / range\<close> for every index. On the empty array the loop
  body never runs (and the minimum, \<^verbatim>\<open>Infinity\<close>, is never used).
\<close>

definition normalizeData :: "real list \<Rightarrow> jsnum list" where
  "normalizeData data =
     (case data of
        [] \<Rightarrow> []
      | d # ds \<Rightarrow>
          let mn = fold min ds d;
              mx = fold max ds d;
              range = mx - mn
          in map (\<lambda>v. js_div (v - mn) range) data)"

definition generateHeightMap ::
  "(real \<Rightarrow> real \<Rightarrow> real \<Rightarrow> real) \<Rightarrow> real \<Rightarrow> nat \<Rightarrow> nat \<Rightarrow> jsnum list" where
  "generateHeightMap perlin z width height =
     normalizeData (accumulateNoise perlin z width height)"

text \<open>A value of the unit interval.\<close>

fun inUnit :: "jsnum \<Rightarrow> bool" where
  "inUnit (Num r) = (0 \<le> r \<and> r \<le> 1)"
| "inUnit _ = False"

text \<open>Two noise stubs: the constant 0, and 1 at the origin \<open>(0, 0, 42)\<close> and 0 elsewhere.\<close>

definition zeroNoise :: "real \<Rightarrow> real \<Rightarrow> real \<Rightarrow> real" where
  "zeroNoise x y z = 0"

definition peakNoise :: "real \<Rightarrow> real \<Rightarrow> real \<Rightarrow> real" where
  "peakNoise x y z = (if x = 0 \<and> y = 0 \<and> z = 42 then 1 else 0)"


section \<open>The direct-sampling height method\<close>

text \<open>
  The method \<^verbatim>\<open>getHeightAtPosition(x, z)\<close> of the class. The two-dimensional noise
  function \<^verbatim>\<open>this.noise.perlin2\<close> belongs to the noise library and is a parameter;
  \<^verbatim>\<open>this.config.season\<close> is one of four strings.
\<close>

datatype season = Summer | Autumn | Winter | Spring

definition noise_scale :: real where
  "noise_scale = 0.01"

definition waterHeight :: real where
  "waterHeight = -3"

text \<open>
  The octave loop, counting the octaves that remain:
  \<^verbatim>\<open>height += perlin2(x * scale * frequency, z * scale * frequency) * amplitude;
  amplitude *= 0.5; frequency *= 2\<close>.
\<close>

fun noiseOctaves ::
  "(real \<Rightarrow> real \<Rightarrow> real) \<Rightarrow> real \<Rightarrow> real \<Rightarrow> nat \<Rightarrow> real \<Rightarrow> real \<Rightarrow> real \<Rightarrow> real" where
  "noiseOctaves perlin2 x z 0 height amplitude frequency = height"
| "noiseOctaves perlin2 x z (Suc octaves) height amplitude frequency =
     noiseOctaves perlin2 x z octaves
       (height + perlin2 (x * noise_scale * frequency) (z * noise_scale * frequency) * amplitude)
       (amplitude * 0.5) (frequency * 2)"

definition getHeightAtPosition_direct ::
  "(real \<Rightarrow> real \<Rightarrow> real) \<Rightarrow> season \<Rightarrow> real \<Rightarrow> real \<Rightarrow> real" where
  "getHeightAtPosition_direct perlin2 season x z =
     (let height = noiseOctaves perlin2 x z 4 0 1 1;
          height = height * 15;
          height = (if season = Winter then height * 0.8 + 2 else height)
      in if height < waterHeight \<and> season \<noteq> Winter then waterHeight else height)"

text \<open>
  The object that the method reads from \<^verbatim>\<open>this.noise\<close>. The constructor binds it
  with \<^verbatim>\<open>this.noise = new ImprovedNoise()\<close>, the class that \<^verbatim>\<open>generateHeightMap\<close>
  uses as well, there through its method \<^verbatim>\<open>noise(x, y, z)\<close>. That method is the only
  one the library's class has; a noise object is modelled by the methods it provides.
\<close>

record noiseObject =
  noise_method :: "(real \<Rightarrow> real \<Rightarrow> real \<Rightarrow> real) option"
  perlin2_method :: "(real \<Rightarrow> real \<Rightarrow> real) option"

definition ImprovedNoise :: "(real \<Rightarrow> real \<Rightarrow> real \<Rightarrow> real) \<Rightarrow> noiseObject" where
  "ImprovedNoise f = \<lparr> noise_method = Some f, perlin2_method = None \<rparr>"

text \<open>
  The method as called on an object whose \<^verbatim>\<open>noise\<close> field is \<open>obj\<close>. The first
  pass of the octave loop evaluates \<^verbatim>\<open>this.noise.perlin2(...)\<close>, which raises when
  \<open>obj\<close> has no such method.
\<close>

definition getHeightAtPosition_method ::
  "noiseObject \<Rightarrow> season \<Rightarrow> real \<Rightarrow> real \<Rightarrow> error + real" where
  "getHeightAtPosition_method obj season x z =
     (case perlin2_method obj of
        None \<Rightarrow> Inl TypeError
      | Some perlin2 \<Rightarrow> Inr (getHeightAtPosition_direct perlin2 season x z))"



section \<open>The road ribbon\<close>

text \<open>
  Vectors, curves and the plane geometry are the rendering library's. A vector is its
  three finite components. A curve is known by the two methods the road builder calls,
  \<^verbatim>\<open>getPoint(t)\<close> and \<^verbatim>\<open>getTangent(t)\<close>; how a curve path is made from two-point
  spline segments is the parameter \<open>CurvePath\<close> of the builder.
\<close>

datatype vec3 = Vector3 (vx: real) (vy: real) (vz: real)

record curve =
  getPoint :: "jsnum \<Rightarrow> vec3"
  getTangent :: "jsnum \<Rightarrow> vec3"

text \<open>
  The library's \<^verbatim>\<open>Vector3.normalize()\<close>: division by the length, and by 1 when the
  length is 0.
\<close>

definition vec_length :: "vec3 \<Rightarrow> real" where
  "vec_length v = sqrt (vx v * vx v + vy v * vy v + vz v * vz v)"

definition normalize :: "vec3 \<Rightarrow> vec3" where
  "normalize v =
     (let l = (if vec_length v = 0 then 1 else vec_length v)
      in Vector3 (vx v / l) (vy v / l) (vz v / l))"

text \<open>
  The position buffer of \<^verbatim>\<open>new THREE.PlaneGeometry(w, l, widthSegments, heightSegments)\<close>
  holds three numbers for each of \<open>(widthSegments + 1) \<times> (heightSegments + 1)\<close> vertices,
  and none when a factor is not positive. The coordinates the library puts there are not
  modelled: the loop of \<^verbatim>\<open>createRoad\<close> overwrites every one of them.
\<close>

definition PlaneGeometry_positions :: "int \<Rightarrow> int \<Rightarrow> jsnum list" where
  "PlaneGeometry_positions widthSegments heightSegments =
     replicate (3 * (nat (widthSegments + 1) * nat (heightSegments + 1))) (Num 0)"

text \<open>
  The body of the inner loop, for \<open>j = 0\<close> and \<open>j = 1\<close>. A write outside a typed array
  is ignored, as \<open>list_update\<close> does.
\<close>

definition setVertex ::
  "real \<Rightarrow> vec3 \<Rightarrow> jsnum \<Rightarrow> vec3 \<Rightarrow> nat \<Rightarrow> nat \<Rightarrow> jsnum list \<Rightarrow> jsnum list" where
  "setVertex roadWidth point height normal i j positions =
     (let vertexIndex = (i * 2 + j) * 3;
          width = (if j = 0 then -1 else 1) * roadWidth / 2
      in positions
           [vertexIndex := Num (vx point + vx normal * width),
            vertexIndex + 1 := height,
            vertexIndex + 2 := Num (vz point + vz normal * width)])"

text \<open>The body of the outer loop, for one sample index \<open>i\<close>.\<close>

definition clearance :: real where
  "clearance = 0.2"

definition sampleParam :: "nat \<Rightarrow> int \<Rightarrow> jsnum" where
  "sampleParam i roadSegments = js_div (real i) (real_of_int roadSegments)"

definition roadNormal :: "vec3 \<Rightarrow> vec3" where
  "roadNormal tangent = normalize (Vector3 (- vz tangent) 0 (vx tangent))"

definition roadSample ::
  "real \<Rightarrow> int \<Rightarrow> curve \<Rightarrow> (real \<Rightarrow> real \<Rightarrow> jsnum) \<Rightarrow> nat \<Rightarrow> jsnum list \<Rightarrow> jsnum list" where
  "roadSample roadWidth roadSegments roadCurve getHeight i positions =
     (let t = sampleParam i roadSegments;
          point = getPoint roadCurve t;
          height = js_plus (getHeight (vx point) (vz point)) (Num clearance);
          tangent = getTangent roadCurve t;
          normal = roadNormal tangent
      in fold (setVertex roadWidth point height normal i) [0, 1] positions)"

text \<open>\<^verbatim>\<open>for (let i = 0; i <= roadSegments; i++)\<close>\<close>

definition roadLoop ::
  "real \<Rightarrow> int \<Rightarrow> curve \<Rightarrow> (real \<Rightarrow> real \<Rightarrow> jsnum) \<Rightarrow> jsnum list \<Rightarrow> jsnum list" where
  "roadLoop roadWidth roadSegments roadCurve getHeight positions =
     fold (roadSample roadWidth roadSegments roadCurve getHeight)
       [0..<nat (roadSegments + 1)] positions"

text \<open>
  The six numbers that the loop body writes for sample index \<open>i\<close>: the vertex for
  \<open>j = 0\<close>, then the vertex for \<open>j = 1\<close>.
\<close>

definition ribbonPair ::
  "real \<Rightarrow> int \<Rightarrow> curve \<Rightarrow> (real \<Rightarrow> real \<Rightarrow> jsnum) \<Rightarrow> nat \<Rightarrow> jsnum list" where
  "ribbonPair roadWidth roadSegments roadCurve getHeight i =
     (let t = sampleParam i roadSegments;
          point = getPoint roadCurve t;
          height = js_plus (getHeight (vx point) (vz point)) (Num clearance);
          normal = roadNormal (getTangent roadCurve t)
      in [Num (vx point + vx normal * (- roadWidth / 2)), height,
          Num (vz point + vz normal * (- roadWidth / 2)),
          Num (vx point + vx normal * (roadWidth / 2)), height,
          Num (vz point + vz normal * (roadWidth / 2))])"

text \<open>
  \<^verbatim>\<open>createRoad\<close> up to the position buffer it leaves in the road geometry, with its
  three local constants \<^verbatim>\<open>controlPoints\<close>, \<^verbatim>\<open>roadWidth\<close> and \<^verbatim>\<open>roadSegments\<close> as
  parameters. The source has no \<^verbatim>\<open>throw\<close> and no check of either input.
\<close>

definition curveSegments :: "vec3 list \<Rightarrow> vec3 list list" where
  "curveSegments controlPoints =
     map (\<lambda>i. [controlPoints ! i, controlPoints ! (i + 1)]) [0..<length controlPoints - 1]"

definition createRoad_with ::
  "(vec3 list list \<Rightarrow> curve) \<Rightarrow> (real \<Rightarrow> real \<Rightarrow> jsnum) \<Rightarrow> vec3 list \<Rightarrow> real \<Rightarrow> int
     \<Rightarrow> error + jsnum list" where
  "createRoad_with CurvePath getHeight controlPoints roadWidth roadSegments =
     (let roadCurve = CurvePath (curveSegments controlPoints);
          positions = PlaneGeometry_positions 1 roadSegments
      in Inr (roadLoop roadWidth roadSegments roadCurve getHeight positions))"

text \<open>The constants of the source: ten control points on a spiral, width 15, 100 segments.\<close>

definition controlPoints_road :: "vec3 list" where
  "controlPoints_road =
     map (\<lambda>i. let t = real i / 9;
                   angle = t * pi * 4;
                   radius = 200 - t * 100
               in Vector3 (cos angle * radius) 0 (sin angle * radius - 200))
       [0..<10]"

definition createRoad ::
  "(vec3 list list \<Rightarrow> curve) \<Rightarrow> (real \<Rightarrow> real \<Rightarrow> jsnum) \<Rightarrow> error + jsnum list" where
  "createRoad CurvePath getHeight =
     createRoad_with CurvePath getHeight controlPoints_road 15 100"

text \<open>
  The stubs of the end-to-end scenario: a flat height field, and a curve path that runs
  straight from the first point of its first segment to the last point of its last
  segment at constant speed.
\<close>

definition flatHeight :: "real \<Rightarrow> real \<Rightarrow> jsnum" where
  "flatHeight x z = Num 0"

definition lerp3 :: "vec3 \<Rightarrow> vec3 \<Rightarrow> real \<Rightarrow> vec3" where
  "lerp3 a b t =
     Vector3 (vx a + t * (vx b - vx a)) (vy a + t * (vy b - vy a)) (vz a + t * (vz b - vz a))"

definition straightPath :: "vec3 list list \<Rightarrow> curve" where
  "straightPath segs =
     (let a = (case concat segs of [] \<Rightarrow> Vector3 0 0 0 | p # ps \<Rightarrow> p);
          b = (case rev (concat segs) of [] \<Rightarrow> Vector3 0 0 0 | p # ps \<Rightarrow> p)
      in \<lparr> getPoint = (\<lambda>t. case t of Num r \<Rightarrow> lerp3 a b r | _ \<Rightarrow> a),
           getTangent = (\<lambda>t. normalize (Vector3 (vx b - vx a) (vy b - vy a) (vz b - vz a))) \<rparr>)"

definition scenarioPoints :: "vec3 list" where
  "scenarioPoints = [Vector3 0 0 0, Vector3 0 0 10]"

text \<open>Two control points one above the other.\<close>

definition verticalPoints :: "vec3 list" where
  "verticalPoints = [Vector3 0 0 0, Vector3 0 10 0]"

text \<open>The three numbers of vertex \<open>k\<close> of a position buffer.\<close>

definition vertexAt :: "jsnum list \<Rightarrow> nat \<Rightarrow> jsnum list" where
  "vertexAt positions k = [positions ! (3 * k), positions ! (3 * k + 1), positions ! (3 * k + 2)]"

definition vertexCount :: "jsnum list \<Rightarrow> nat" where
  "vertexCount positions = length positions div 3"

definition jsvec :: "vec3 \<Rightarrow> jsnum list" where
  "jsvec v = [Num (vx v), Num (vy v), Num (vz v)]"

definition distance3 :: "vec3 \<Rightarrow> vec3 \<Rightarrow> real" where
  "distance3 a b = vec_length (Vector3 (vx a - vx b) (vy a - vy b) (vz a - vz b))"


section \<open>The specification's formulas\<close>

text \<open>
  The interpolation as the specification words it: the four corner elevations of a cell
  weighted by the fractional offsets \<open>fx\<close>, \<open>fz\<close> within the cell.
\<close>

definition bilinear :: "real \<Rightarrow> real \<Rightarrow> real \<Rightarrow> real \<Rightarrow> real \<Rightarrow> real \<Rightarrow> real" where
  "bilinear h00 h10 h01 h11 fx fz =
     h00 * (1 - fx) * (1 - fz) + h10 * fx * (1 - fz) + h01 * (1 - fx) * fz + h11 * fx * fz"




section \<open>Properties of the grid-backed sampler\<close>

subsection \<open>Cell indices and corner reads\<close>

lemma cellIndex_nonneg:
  assumes "2 \<le> resolution" "0 \<le> t"
  shows "0 \<le> cellIndex resolution t"
proof -
  have "0 \<le> t * (real resolution - 1)"
    using assms by simp
  then have "0 \<le> \<lfloor>t * (real resolution - 1)\<rfloor>"
    by simp
  moreover have "0 \<le> int resolution - 2"
    using assms by simp
  ultimately show ?thesis
    by (simp add: cellIndex_def)
qed

lemma cellIndex_upper: "cellIndex resolution t \<le> int resolution - 2"
  by (simp add: cellIndex_def)

lemma corner_bounds:
  fixes r :: int
  assumes "2 \<le> r" "0 \<le> xi" "xi \<le> r - 2" "0 \<le> zi" "zi \<le> r - 2"
  shows "0 \<le> zi * r + xi" and "(zi + 1) * r + xi + 1 < r * r"
proof -
  have "0 \<le> zi * r"
    using assms by simp
  then show "0 \<le> zi * r + xi"
    using assms by simp
  have "(zi + 1) * r \<le> (r - 1) * r"
    using assms by (intro mult_right_mono) simp_all
  then have "(zi + 1) * r + xi + 1 \<le> (r - 1) * r + (r - 2) + 1"
    using assms by linarith
  also have "\<dots> < r * r"
    by (simp add: algebra_simps)
  finally show "(zi + 1) * r + xi + 1 < r * r" .
qed

lemma cellFrac_bounds:
  assumes "2 \<le> resolution" "0 \<le> t" "t \<le> 1"
  shows "0 \<le> cellFrac resolution t \<and> cellFrac resolution t \<le> 1"
proof -
  let ?s = "t * (real resolution - 1)"
  have s_le: "?s \<le> real resolution - 1"
    using assms by (simp add: mult_left_le_one_le)
  have lo: "0 \<le> ?s - real_of_int (min \<lfloor>?s\<rfloor> (int resolution - 2))"
    by (smt (verit) of_int_floor_le of_int_le_iff min.cobounded1)
  have hi: "?s - real_of_int (min \<lfloor>?s\<rfloor> (int resolution - 2)) \<le> 1"
  proof (cases "\<lfloor>?s\<rfloor> \<le> int resolution - 2")
    case True
    then have "min \<lfloor>?s\<rfloor> (int resolution - 2) = \<lfloor>?s\<rfloor>" by simp
    then show ?thesis by linarith
  next
    case False
    then have "real_of_int (min \<lfloor>?s\<rfloor> (int resolution - 2)) = real resolution - 2"
      by simp
    then show ?thesis using s_le by linarith
  qed
  show ?thesis
    using lo hi by (simp add: cellFrac_def cellIndex_def)
qed

lemma cell_and_corner_bounds:
  assumes "2 \<le> resolution"
    and "\<not> outsideTerrain (terrainCoord x) (terrainCoord z)"
    and "length heightMap = resolution * resolution"
    and "xIndex = cellIndex resolution (terrainCoord x)"
    and "zIndex = cellIndex resolution (terrainCoord z)"
    and "cornerIndices resolution xIndex zIndex = (i00, i10, i01, i11)"
  shows "0 \<le> xIndex \<and> xIndex \<le> int resolution - 2
    \<and> 0 \<le> zIndex \<and> zIndex \<le> int resolution - 2
    \<and> (\<forall>k \<in> {i00, i10, i01, i11}. 0 \<le> k \<and> k < int (length heightMap))"
proof -
  have x0: "0 \<le> xIndex" and z0: "0 \<le> zIndex"
    using assms by (simp_all add: outsideTerrain_def cellIndex_nonneg)
  have x1: "xIndex \<le> int resolution - 2" and z1: "zIndex \<le> int resolution - 2"
    using assms by (simp_all add: cellIndex_upper)
  have r: "2 \<le> int resolution" using assms(1) by simp
  note b = corner_bounds [OF r x0 x1 z0 z1]
  have len: "int (length heightMap) = int resolution * int resolution"
    using assms(3) by simp
  have i: "i00 = zIndex * int resolution + xIndex" "i10 = i00 + 1"
    "i01 = (zIndex + 1) * int resolution + xIndex" "i11 = i01 + 1"
    using assms(6) by (simp_all add: cornerIndices_def)
  have "i00 \<le> i01" using i r by (simp add: algebra_simps)
  then have "0 \<le> i00 \<and> i00 \<le> i10 \<and> i10 \<le> i11 \<and> i00 \<le> i01 \<and> i01 \<le> i11
      \<and> i11 < int (length heightMap)"
    using b i len by linarith
  then show ?thesis
    using x0 x1 z0 z1 by auto
qed

lemma terrainCoord_500: "terrainCoord 500 = 1"
  by (simp add: terrainCoord_def terrain_size_def)

text \<open>
  Claim C10. Inside the terrain, boundary fraction 1 included, the cell indices
  \<open>xIndex\<close> and \<open>zIndex\<close> lie between 0 and \<open>resolution - 2\<close>, and each of the four
  corner indices lies within the height map, so that each read returns the stored element.
\<close>

theorem corner_reads_in_bounds:
  assumes "2 \<le> resolution"
    and "\<not> outsideTerrain (terrainCoord x) (terrainCoord z)"
    and "length heightMap = resolution * resolution"
  shows "let xIndex = cellIndex resolution (terrainCoord x);
             zIndex = cellIndex resolution (terrainCoord z);
             (i00, i10, i01, i11) = cornerIndices resolution xIndex zIndex
         in 0 \<le> xIndex \<and> xIndex \<le> int resolution - 2
          \<and> 0 \<le> zIndex \<and> zIndex \<le> int resolution - 2
          \<and> list_all (\<lambda>k. 0 \<le> k \<and> k < int (length heightMap)
                \<and> js_read heightMap k = heightMap ! nat k) [i00, i10, i01, i11]"
proof -
  obtain i00 i10 i01 i11 where ci:
    "cornerIndices resolution (cellIndex resolution (terrainCoord x))
       (cellIndex resolution (terrainCoord z)) = (i00, i10, i01, i11)"
    by (metis prod_cases4)
  from cell_and_corner_bounds [OF assms refl refl ci] show ?thesis
    by (simp add: ci js_read_def)
qed

text \<open>The corner of the terrain, \<open>x = z = 500\<close>, where both fractions are exactly 1.\<close>

theorem corner_reads_in_bounds_witness:
  "\<not> outsideTerrain (terrainCoord 500) (terrainCoord 500)
   \<and> cellIndex 128 (terrainCoord 500) = 126
   \<and> cornerIndices 128 126 126 = (16254, 16255, 16382, 16383)
   \<and> (16383 :: int) < int (length (replicate (128 * 128) (Num 0)))"
proof -
  have h: "\<not> outsideTerrain (terrainCoord 500) (terrainCoord 500)"
    by (simp add: outsideTerrain_def terrainCoord_500)
  have c: "cellIndex 128 (terrainCoord 500) = 126"
    by (simp add: cellIndex_def terrainCoord_500)
  show ?thesis
    using h c corner_reads_in_bounds [of 128 500 500 "replicate (128 * 128) (Num 0)"]
    by (simp add: cornerIndices_def)
qed

subsection \<open>Outside the terrain\<close>

text \<open>
  Claim C5. A query whose grid fraction leaves \<open>[0, 1]\<close> on either axis returns exactly
  0, whatever the height map holds; the sampler has no failing branch.
\<close>

theorem gridSampler_outside_zero:
  assumes "outsideTerrain (terrainCoord x) (terrainCoord z)"
  shows "gridSampler resolution heightMap x z = Num 0"
  using assms by (simp add: gridSampler_def)

theorem gridSampler_outside_zero_witness:
  "outsideTerrain (terrainCoord 501) (terrainCoord 0)
   \<and> getHeightAtPosition_grid [] 501 0 = Num 0"
proof -
  have h: "outsideTerrain (terrainCoord 501) (terrainCoord 0)"
    by (simp add: outsideTerrain_def terrainCoord_def terrain_size_def)
  show ?thesis
    using h gridSampler_outside_zero [OF h, of terrain_resolution "[]"]
    by (simp add: getHeightAtPosition_grid_def)
qed

subsection \<open>Bilinear interpolation\<close>

lemma js_read_map_Num:
  "0 \<le> k \<Longrightarrow> k < int (length hs) \<Longrightarrow> js_read (map Num hs) k = Num (hs ! nat k)"
  by (simp add: js_read_def)

lemma gridSampler_inside:
  assumes res: "2 \<le> resolution"
    and len: "length hs = resolution * resolution"
    and inside: "\<not> outsideTerrain (terrainCoord x) (terrainCoord z)"
  shows "let xi = nat (cellIndex resolution (terrainCoord x));
             zi = nat (cellIndex resolution (terrainCoord z));
             fx = terrainCoord x * (real resolution - 1) - real xi;
             fz = terrainCoord z * (real resolution - 1) - real zi
         in xi + 1 < resolution \<and> zi + 1 < resolution
          \<and> 0 \<le> fx \<and> fx \<le> 1 \<and> 0 \<le> fz \<and> fz \<le> 1
          \<and> gridSampler resolution (map Num hs) x z =
              Num (maxHeight *
                bilinear (hs ! (zi * resolution + xi)) (hs ! (zi * resolution + xi + 1))
                  (hs ! ((zi + 1) * resolution + xi)) (hs ! ((zi + 1) * resolution + xi + 1))
                  fx fz)"
proof -
  define xIndex where "xIndex = cellIndex resolution (terrainCoord x)"
  define zIndex where "zIndex = cellIndex resolution (terrainCoord z)"
  obtain i00 i10 i01 i11 where ci: "cornerIndices resolution xIndex zIndex = (i00, i10, i01, i11)"
    by (metis prod_cases4)
  have lm: "length (map Num hs) = resolution * resolution"
    using len by simp
  note b = cell_and_corner_bounds [OF res inside lm xIndex_def zIndex_def ci]
  have x0: "0 \<le> xIndex" and x1: "xIndex \<le> int resolution - 2"
    and z0: "0 \<le> zIndex" and z1: "zIndex \<le> int resolution - 2"
    using b by simp_all
  have inb: "0 \<le> i00" "i00 < int (length hs)" "0 \<le> i10" "i10 < int (length hs)"
    "0 \<le> i01" "i01 < int (length hs)" "0 \<le> i11" "i11 < int (length hs)"
    using b by simp_all
  have i: "i00 = zIndex * int resolution + xIndex" "i10 = zIndex * int resolution + xIndex + 1"
    "i01 = (zIndex + 1) * int resolution + xIndex"
    "i11 = (zIndex + 1) * int resolution + xIndex + 1"
    using ci by (simp_all add: cornerIndices_def)
  have n: "nat i00 = nat zIndex * resolution + nat xIndex"
    "nat i10 = nat zIndex * resolution + nat xIndex + 1"
    "nat i01 = (nat zIndex + 1) * resolution + nat xIndex"
    "nat i11 = (nat zIndex + 1) * resolution + nat xIndex + 1"
    using x0 z0 unfolding i
    by (simp_all add: nat_add_distrib nat_mult_distrib algebra_simps)
  have fx: "cellFrac resolution (terrainCoord x)
      = terrainCoord x * (real resolution - 1) - real (nat xIndex)"
    using x0 by (simp add: cellFrac_def xIndex_def)
  have fz: "cellFrac resolution (terrainCoord z)
      = terrainCoord z * (real resolution - 1) - real (nat zIndex)"
    using z0 by (simp add: cellFrac_def zIndex_def)
  have fb: "0 \<le> cellFrac resolution (terrainCoord x) \<and> cellFrac resolution (terrainCoord x) \<le> 1"
    "0 \<le> cellFrac resolution (terrainCoord z) \<and> cellFrac resolution (terrainCoord z) \<le> 1"
    using inside res by (simp_all add: outsideTerrain_def cellFrac_bounds)
  have cells: "nat xIndex + 1 < resolution" "nat zIndex + 1 < resolution"
    using x0 x1 z0 z1 by linarith+
  have val: "gridSampler resolution (map Num hs) x z =
      Num (maxHeight *
        bilinear (hs ! nat i00) (hs ! nat i10) (hs ! nat i01) (hs ! nat i11)
          (cellFrac resolution (terrainCoord x)) (cellFrac resolution (terrainCoord z)))"
    using inside inb ci
    by (simp add: gridSampler_def Let_def xIndex_def [symmetric] zIndex_def [symmetric]
        js_read_map_Num bilinear_def algebra_simps)
  show ?thesis
    unfolding Let_def xIndex_def [symmetric] zIndex_def [symmetric]
    using cells fb val by (simp add: n fx fz)
qed

text \<open>
  Claim C4. On a finite \<open>resolution \<times> resolution\<close> height map and a query inside the
  terrain, the sampler returns \<open>maxHeight\<close> times the bilinear interpolation of the four
  corners of the cell \<open>(xi, zi)\<close>, a cell of the grid, at the offsets \<open>fx\<close>, \<open>fz\<close> of
  the query from the cell's origin, both in \<open>[0, 1]\<close>.
\<close>

theorem gridSampler_bilinear:
  assumes "2 \<le> resolution"
    and "length hs = resolution * resolution"
    and "\<not> outsideTerrain (terrainCoord x) (terrainCoord z)"
  shows "let xi = nat (cellIndex resolution (terrainCoord x));
             zi = nat (cellIndex resolution (terrainCoord z));
             fx = terrainCoord x * (real resolution - 1) - real xi;
             fz = terrainCoord z * (real resolution - 1) - real zi
         in xi + 1 < resolution \<and> zi + 1 < resolution
          \<and> 0 \<le> fx \<and> fx \<le> 1 \<and> 0 \<le> fz \<and> fz \<le> 1
          \<and> gridSampler resolution (map Num hs) x z =
              Num (maxHeight *
                bilinear (hs ! (zi * resolution + xi)) (hs ! (zi * resolution + xi + 1))
                  (hs ! ((zi + 1) * resolution + xi)) (hs ! ((zi + 1) * resolution + xi + 1))
                  fx fz)"
  using assms by (rule gridSampler_inside)

text \<open>The centre of a \<open>2 \<times> 2\<close> map with corners 0, 1, 2, 3: the mean 1.5, times 30.\<close>

theorem gridSampler_bilinear_witness:
  "\<not> outsideTerrain (terrainCoord 0) (terrainCoord 0)
   \<and> gridSampler 2 (map Num [0, 1, 2, 3]) 0 0 = Num 45"
proof -
  have tc: "terrainCoord 0 = 1 / 2"
    by (simp add: terrainCoord_def terrain_size_def)
  have h: "\<not> outsideTerrain (terrainCoord 0) (terrainCoord 0)"
    by (simp add: outsideTerrain_def tc)
  have c: "cellIndex 2 (1 / 2) = 0"
    by (simp add: cellIndex_def)
  show ?thesis
    using h gridSampler_bilinear [of 2 "[0, 1, 2, 3]" 0 0]
    by (simp add: tc c Let_def bilinear_def maxHeight_def)
qed


section \<open>Properties of the height map generator\<close>

subsection \<open>Minimum, maximum and normalisation\<close>

lemma fold_min_Min: "fold min ds d = Min (set (d # ds))"
  by (simp only: Min.set_eq_fold)

lemma fold_max_Max: "fold max ds d = Max (set (d # ds))"
  by (simp only: Max.set_eq_fold)

lemma normalizeData_length: "length (normalizeData data) = length data"
  by (cases data) (simp_all add: normalizeData_def Let_def)

lemma normalizeData_spread:
  assumes "a \<in> set data" "b \<in> set data" "a \<noteq> b"
  shows "list_all inUnit (normalizeData data)"
    and "Num 0 \<in> set (normalizeData data)"
    and "Num 1 \<in> set (normalizeData data)"
proof -
  obtain d ds where data: "data = d # ds"
    using assms(1) by (cases data) auto
  define mn where "mn = Min (set data)"
  define mx where "mx = Max (set data)"
  have fin: "finite (set data)" and ne: "set data \<noteq> {}"
    using assms(1) by auto
  have mn_in: "mn \<in> set data"
    unfolding mn_def by (rule Min_in [OF fin ne])
  have mx_in: "mx \<in> set data"
    unfolding mx_def by (rule Max_in [OF fin ne])
  have lo: "\<And>v. v \<in> set data \<Longrightarrow> mn \<le> v" and hi: "\<And>v. v \<in> set data \<Longrightarrow> v \<le> mx"
    unfolding mn_def mx_def using fin by simp_all
  have "mn < mx"
  proof (rule ccontr)
    assume "\<not> mn < mx"
    then have "mx \<le> mn" by simp
    then have "a = b"
      using lo [OF assms(1)] hi [OF assms(1)] lo [OF assms(2)] hi [OF assms(2)] by linarith
    then show False using assms(3) by simp
  qed
  then have range: "mx - mn \<noteq> 0" "0 < mx - mn" by simp_all
  have nd: "normalizeData data = map (\<lambda>v. js_div (v - mn) (mx - mn)) data"
    unfolding data normalizeData_def mn_def mx_def data
    by (simp only: list.case Let_def fold_min_Min fold_max_Max)
  have step: "\<And>v. v \<in> set data \<Longrightarrow> js_div (v - mn) (mx - mn) = Num ((v - mn) / (mx - mn))"
    using range by (simp add: js_div_def)
  show "list_all inUnit (normalizeData data)"
    unfolding nd list_all_iff
  proof
    fix w assume "w \<in> set (map (\<lambda>v. js_div (v - mn) (mx - mn)) data)"
    then obtain v where v: "v \<in> set data" and w: "w = js_div (v - mn) (mx - mn)"
      by auto
    have "0 \<le> (v - mn) / (mx - mn)" "(v - mn) / (mx - mn) \<le> 1"
      using lo [OF v] hi [OF v] range by simp_all
    then show "inUnit w"
      by (simp add: w step [OF v])
  qed
  have "\<exists>v \<in> set data. Num 0 = js_div (v - mn) (mx - mn)"
    using mn_in range by (intro bexI [where x = mn]) (simp_all add: js_div_def)
  then show "Num 0 \<in> set (normalizeData data)"
    by (simp add: nd image_iff)
  have "\<exists>v \<in> set data. Num 1 = js_div (v - mn) (mx - mn)"
    using mx_in range by (intro bexI [where x = mx]) (simp_all add: js_div_def)
  then show "Num 1 \<in> set (normalizeData data)"
    by (simp add: nd image_iff)
qed

lemma normalizeData_flat:
  assumes "\<forall>v \<in> set data. v = c"
  shows "normalizeData data = replicate (length data) NaN"
proof (cases data)
  case Nil
  then show ?thesis by (simp add: normalizeData_def)
next
  case (Cons d ds)
  have all: "set data = {c}"
    using assms Cons by auto
  have "fold min ds d = c" "fold max ds d = c"
    using all unfolding fold_min_Min fold_max_Max Cons
    by (simp_all only: Min_singleton Max_singleton)
  then have "normalizeData data = map (\<lambda>v. js_div (v - c) 0) data"
    unfolding Cons normalizeData_def by (simp add: Let_def)
  also have "\<dots> = map (\<lambda>v. NaN) data"
    using assms by (intro map_cong) (simp_all add: js_div_def)
  finally show ?thesis
    by (simp add: map_replicate_const)
qed

subsection \<open>The accumulated array\<close>

lemma length_fold_addSample: "length (fold (addSample p z w q) is d) = length d"
  by (induction "is" arbitrary: d) (simp_all add: addSample_def Let_def)

lemma length_octaveLoop: "length (octaveLoop p z w steps q d) = length d"
  by (induction steps arbitrary: q d) (simp_all add: length_fold_addSample)

lemma length_accumulateNoise: "length (accumulateNoise p z w h) = w * h"
  by (simp add: accumulateNoise_def length_octaveLoop)

lemma length_generateHeightMap: "length (generateHeightMap p z w h) = w * h"
  by (simp add: generateHeightMap_def normalizeData_length length_accumulateNoise)

lemma inUnit_finite: "list_all inUnit xs \<Longrightarrow> \<exists>hs. xs = map Num hs"
proof (induction xs)
  case Nil
  then show ?case by simp
next
  case (Cons v xs)
  then obtain hs where hs: "xs = map Num hs"
    by auto
  from Cons.prems obtain r where "v = Num r"
    by (cases v) simp_all
  then have "v # xs = map Num (r # hs)"
    using hs by simp
  then show ?case ..
qed

text \<open>A grid made from samples that are not all equal is finite, as the sampler needs it.\<close>

lemma generateHeightMap_finite:
  assumes "a \<in> set (accumulateNoise perlin z width height)"
    and "b \<in> set (accumulateNoise perlin z width height)"
    and "a \<noteq> b"
  shows "\<exists>hs. generateHeightMap perlin z width height = map Num hs"
  using normalizeData_spread(1) [OF assms]
  by (simp add: generateHeightMap_def inUnit_finite)

lemma acc_peak: "accumulateNoise peakNoise 42 4 4 = 85 # replicate 15 0"
  by code_simp

lemma acc_zero: "accumulateNoise zeroNoise 42 4 4 = replicate 16 0"
  by code_simp

lemma one_cell: "generateHeightMap perlin z 1 1 = [NaN]"
proof -
  have "length (accumulateNoise perlin z 1 1) = 1"
    by (simp add: length_accumulateNoise)
  then obtain d where "accumulateNoise perlin z 1 1 = [d]"
    by (metis One_nat_def length_0_conv length_Suc_conv)
  then show ?thesis
    by (simp add: generateHeightMap_def normalizeData_def js_div_def)
qed

text \<open>
  Claim C1, as amended. Whenever two of the accumulated samples differ, the generated
  grid has \<open>width \<times> height\<close> entries, every entry is a number of \<open>[0, 1]\<close>, and both
  0 and 1 occur in it.
\<close>

theorem generateHeightMap_unit_range:
  assumes "a \<in> set (accumulateNoise perlin z width height)"
    and "b \<in> set (accumulateNoise perlin z width height)"
    and "a \<noteq> b"
  shows "length (generateHeightMap perlin z width height) = width * height
    \<and> list_all inUnit (generateHeightMap perlin z width height)
    \<and> Num 0 \<in> set (generateHeightMap perlin z width height)
    \<and> Num 1 \<in> set (generateHeightMap perlin z width height)"
  using normalizeData_spread [OF assms]
  by (simp add: generateHeightMap_def [symmetric] length_generateHeightMap)

text \<open>
  The specification's single-peak scenario: resolution 4 and a noise that is 1 at the
  origin and 0 elsewhere accumulate to 85 in the first cell and to 0 in the others.
\<close>

theorem generateHeightMap_unit_range_witness:
  "85 \<in> set (accumulateNoise peakNoise 42 4 4) \<and> 0 \<in> set (accumulateNoise peakNoise 42 4 4)
   \<and> list_all inUnit (generateHeightMap peakNoise 42 4 4)
   \<and> Num 0 \<in> set (generateHeightMap peakNoise 42 4 4)
   \<and> Num 1 \<in> set (generateHeightMap peakNoise 42 4 4)"
proof -
  have a: "85 \<in> set (accumulateNoise peakNoise 42 4 4)"
    and b: "0 \<in> set (accumulateNoise peakNoise 42 4 4)"
    by (simp_all add: acc_peak)
  have ne: "(85 :: real) \<noteq> 0"
    by simp
  show ?thesis
    using a b generateHeightMap_unit_range [OF a b ne] by simp
qed

text \<open>
  Claim C1 as stated fails where all accumulated samples are equal: the range is 0 and
  every entry becomes \<open>0 / 0\<close>. This happens for the constant noise at resolution 4, and
  for any noise at resolution 1.
\<close>

theorem generateHeightMap_degenerate_counterexample:
  "generateHeightMap zeroNoise 42 4 4 = replicate 16 NaN
   \<and> \<not> list_all inUnit (generateHeightMap zeroNoise 42 4 4)
   \<and> Num 0 \<notin> set (generateHeightMap zeroNoise 42 4 4)
   \<and> Num 1 \<notin> set (generateHeightMap zeroNoise 42 4 4)
   \<and> generateHeightMap peakNoise 42 1 1 = [NaN]"
proof -
  have "generateHeightMap zeroNoise 42 4 4 = replicate 16 NaN"
    unfolding generateHeightMap_def acc_zero
    by (subst normalizeData_flat [where c = 0]) simp_all
  moreover have "\<not> list_all inUnit (replicate 16 NaN)"
    by (simp add: list_all_iff)
  moreover have "generateHeightMap peakNoise 42 1 1 = [NaN]"
    by (rule one_cell)
  ultimately show ?thesis
    by simp
qed


section \<open>Properties of the direct-sampling method\<close>







section \<open>Totality of height sampling\<close>

text \<open>
  On a finite \<open>resolution \<times> resolution\<close> height map the grid-backed sampler returns
  a finite number for every query, 0 outside the terrain.
\<close>

lemma gridSampler_finite:
  assumes "2 \<le> resolution" and "length hs = resolution * resolution"
  shows "\<exists>r. gridSampler resolution (map Num hs) x z = Num r"
proof (cases "outsideTerrain (terrainCoord x) (terrainCoord z)")
  case True
  then show ?thesis
    by (simp add: gridSampler_def)
next
  case False
  from gridSampler_inside [OF assms False] show ?thesis
    by (simp add: Let_def)
qed

text \<open>With the library's noise object the direct-sampling method raises on every query.\<close>

lemma getHeightAtPosition_method_ImprovedNoise:
  "getHeightAtPosition_method (ImprovedNoise f) season x z = Inl TypeError"
  by (simp add: getHeightAtPosition_method_def ImprovedNoise_def)

lemma gridSampler_NaN_map: "gridSampler 4 (replicate 16 NaN) 0 0 = NaN"
proof -
  have tc: "terrainCoord 0 = 1 / 2"
    by (simp add: terrainCoord_def terrain_size_def)
  have c: "cellIndex 4 (1 / 2) = 1"
    by (simp add: cellIndex_def)
  show ?thesis
    by (simp add: gridSampler_def Let_def tc c outsideTerrain_def cornerIndices_def js_read_def)
qed

text \<open>
  Claim C7 fails on the code. The direct-sampling method, run on the noise object that
  the constructor creates, raises a \<open>TypeError\<close> at the query \<open>(0, 0)\<close>, as at any
  other; and the grid-backed sampler returns NaN at \<open>(0, 0)\<close> on the map that the
  generator makes from equal samples.
\<close>

theorem height_sampling_not_total:
  "getHeightAtPosition_method (ImprovedNoise peakNoise) Summer 0 0 = Inl TypeError
   \<and> gridSampler 4 (generateHeightMap zeroNoise 42 4 4) 0 0 = NaN"
proof -
  have "generateHeightMap zeroNoise 42 4 4 = replicate 16 NaN"
    unfolding generateHeightMap_def acc_zero
    by (subst normalizeData_flat [where c = 0]) simp_all
  then show ?thesis
    by (simp add: getHeightAtPosition_method_ImprovedNoise gridSampler_NaN_map)
qed


section \<open>Properties of the road ribbon\<close>

subsection \<open>The loop writes one pair per sample index\<close>

lemma length_ribbonPair: "length (ribbonPair w n c h i) = 6"
  by (simp add: ribbonPair_def Let_def)

lemma six_updates:
  assumes "6 \<le> length B"
  shows "B[0 := a0, Suc 0 := a1, Suc (Suc 0) := a2, Suc (Suc (Suc 0)) := a3,
           Suc (Suc (Suc (Suc 0))) := a4, Suc (Suc (Suc (Suc (Suc 0)))) := a5]
    = [a0, a1, a2, a3, a4, a5] @ drop 6 B"
proof -
  obtain b0 B1 where 0: "B = b0 # B1" using assms by (cases B) auto
  obtain b1 B2 where 1: "B1 = b1 # B2" using assms 0 by (cases B1) auto
  obtain b2 B3 where 2: "B2 = b2 # B3" using assms 0 1 by (cases B2) auto
  obtain b3 B4 where 3: "B3 = b3 # B4" using assms 0 1 2 by (cases B3) auto
  obtain b4 B5 where 4: "B4 = b4 # B5" using assms 0 1 2 3 by (cases B4) auto
  obtain b5 C where 5: "B5 = b5 # C" using assms 0 1 2 3 4 by (cases B5) auto
  have d: "drop 6 B = C"
    by (simp add: 0 1 2 3 4 5 eval_nat_numeral)
  show ?thesis
    unfolding d by (simp add: 0 1 2 3 4 5)
qed

lemma roadSample_append:
  assumes "length A = 6 * i" "6 \<le> length B"
  shows "roadSample w n c h i (A @ B) = A @ ribbonPair w n c h i @ drop 6 B"
proof -
  have idx: "(i * 2 + 0) * 3 = length A" "(i * 2 + 1) * 3 = length A + 3"
    using assms(1) by simp_all
  show ?thesis
    using six_updates [OF assms(2)]
    by (simp add: roadSample_def setVertex_def Let_def ribbonPair_def assms(1)
        list_update_append eval_nat_numeral)
qed

lemma roadLoop_prefix:
  assumes "length ps = 6 * m" "k \<le> m"
  shows "fold (roadSample w n c h) [0..<k] ps
    = concat (map (ribbonPair w n c h) [0..<k]) @ drop (6 * k) ps"
  using assms(2)
proof (induction k)
  case 0
  then show ?case by simp
next
  case (Suc k)
  let ?A = "concat (map (ribbonPair w n c h) [0..<k])"
  have lenA: "length ?A = 6 * k"
    by (induction k) (simp_all add: length_ribbonPair)
  have lenB: "6 \<le> length (drop (6 * k) ps)"
    using Suc.prems assms(1) by simp
  have "fold (roadSample w n c h) [0..<Suc k] ps
      = roadSample w n c h k (?A @ drop (6 * k) ps)"
    using Suc by simp
  also have "\<dots> = ?A @ ribbonPair w n c h k @ drop 6 (drop (6 * k) ps)"
    by (rule roadSample_append [OF lenA lenB])
  also have "\<dots> = concat (map (ribbonPair w n c h) [0..<Suc k]) @ drop (6 * Suc k) ps"
    by (simp add: add.commute)
  finally show ?case .
qed

lemma length_concat_pairs: "length (concat (map (ribbonPair w n c h) [0..<k])) = 6 * k"
  by (induction k) (simp_all add: length_ribbonPair)

lemma roadLoop_pairs:
  "roadLoop w n c h (PlaneGeometry_positions 1 n)
    = concat (map (ribbonPair w n c h) [0..<nat (n + 1)])"
proof -
  have len: "length (PlaneGeometry_positions 1 n) = 6 * nat (n + 1)"
    by (simp add: PlaneGeometry_positions_def)
  show ?thesis
    unfolding roadLoop_def
    using roadLoop_prefix [OF len order_refl, of w n c h] len by simp
qed

lemma nth_concat_pairs:
  assumes "i < k" "j < 6"
  shows "concat (map (ribbonPair w n c h) [0..<k]) ! (6 * i + j) = ribbonPair w n c h i ! j"
  using assms(1)
proof (induction k)
  case 0
  then show ?case by simp
next
  case (Suc k)
  show ?case
  proof (cases "i < k")
    case True
    then have "6 * i + j < 6 * k" using assms(2) by simp
    then show ?thesis
      using Suc.IH [OF True] by (simp add: nth_append length_concat_pairs)
  next
    case False
    then have "i = k" using Suc.prems by simp
    then show ?thesis
      by (simp add: nth_append length_concat_pairs)
  qed
qed

lemma createRoad_with_pairs:
  "createRoad_with C h cps w n =
     Inr (concat (map (ribbonPair w n (C (curveSegments cps)) h) [0..<nat (n + 1)]))"
  by (simp add: createRoad_with_def Let_def roadLoop_pairs)

lemma sampleParam_valid: "1 \<le> n \<Longrightarrow> sampleParam i n = Num (real i / real_of_int n)"
  by (simp add: sampleParam_def js_div_def)

lemma unit_quotients:
  fixes a c l :: real
  assumes "l * l = c * c + a * a" "l \<noteq> 0"
  shows "(- c / l) * (- c / l) + (a / l) * (a / l) = 1"
proof -
  have "(- c / l) * (- c / l) + (a / l) * (a / l) = (c * c + a * a) / (l * l)"
    by (simp add: add_divide_distrib)
  also have "\<dots> = (l * l) / (l * l)"
    by (simp only: assms(1))
  also have "\<dots> = 1"
    using assms(2) by simp
  finally show ?thesis .
qed

lemma roadNormal_unit:
  assumes "vx t \<noteq> 0 \<or> vz t \<noteq> 0"
  shows "vx (roadNormal t) * vx (roadNormal t) + vz (roadNormal t) * vz (roadNormal t) = 1"
    and "vy (roadNormal t) = 0"
proof -
  define s where "s = vz t * vz t + vx t * vx t"
  define l where "l = sqrt s"
  have "0 < vz t * vz t \<or> 0 < vx t * vx t"
    using assms by (simp add: zero_less_mult_iff) linarith
  moreover have "0 \<le> vz t * vz t" "0 \<le> vx t * vx t"
    by simp_all
  ultimately have s_pos: "0 < s"
    unfolding s_def by linarith
  then have l_ne: "l \<noteq> 0"
    by (simp add: l_def)
  have len: "vec_length (Vector3 (- vz t) 0 (vx t)) = l"
    by (simp add: vec_length_def s_def l_def)
  have sq: "l * l = vz t * vz t + vx t * vx t"
    using s_pos unfolding l_def by (simp add: s_def)
  have nrm: "roadNormal t = Vector3 (- vz t / l) 0 (vx t / l)"
    using l_ne by (simp add: roadNormal_def normalize_def len Let_def)
  show "vx (roadNormal t) * vx (roadNormal t) + vz (roadNormal t) * vz (roadNormal t) = 1"
    unfolding nrm vec3.sel by (rule unit_quotients [OF sq l_ne])
  show "vy (roadNormal t) = 0"
    unfolding nrm vec3.sel ..
qed

text \<open>Without a horizontal component of the tangent the normal is the zero vector.\<close>

lemma roadNormal_degenerate:
  assumes "vx t = 0" "vz t = 0"
  shows "roadNormal t = Vector3 0 0 0"
  using assms by (simp add: roadNormal_def normalize_def vec_length_def)

lemma pair_distance:
  assumes "nx * nx + nz * nz = 1" "0 \<le> w"
  shows "distance3 (Vector3 (px - nx * (w / 2)) y (pz - nz * (w / 2)))
           (Vector3 (px + nx * (w / 2)) y (pz + nz * (w / 2))) = w"
proof -
  have "(px - nx * (w / 2) - (px + nx * (w / 2))) * (px - nx * (w / 2) - (px + nx * (w / 2)))
      + (pz - nz * (w / 2) - (pz + nz * (w / 2))) * (pz - nz * (w / 2) - (pz + nz * (w / 2)))
      = (nx * nx + nz * nz) * (w * w)"
    by (simp add: algebra_simps)
  also have "\<dots> = w * w"
    using assms(1) by simp
  finally show ?thesis
    using assms(2) by (simp add: distance3_def vec_length_def)
qed

lemma sqrt_100: "sqrt 100 = 10"
  using real_sqrt_abs [of 10] by simp

lemma scenario_curve:
  "getPoint (straightPath (curveSegments scenarioPoints)) (Num r) = Vector3 0 0 (r * 10)"
  "getTangent (straightPath (curveSegments scenarioPoints)) t = Vector3 0 0 1"
  by (simp_all add: straightPath_def curveSegments_def scenarioPoints_def lerp3_def
      normalize_def vec_length_def sqrt_100 Let_def)

lemma roadNormal_z: "roadNormal (Vector3 0 0 1) = Vector3 (- 1) 0 0"
  by (simp add: roadNormal_def normalize_def vec_length_def Let_def)

lemma upt_3: "[0..<3] = [0, 1, 2 :: nat]"
  by code_simp

lemma ribbonPair_nth:
  assumes "1 \<le> n"
  shows "ribbonPair w n c h i =
    (let point = getPoint c (Num (real i / real_of_int n));
         height = js_plus (h (vx point) (vz point)) (Num clearance);
         normal = roadNormal (getTangent c (Num (real i / real_of_int n)))
     in [Num (vx point - vx normal * (w / 2)), height, Num (vz point - vz normal * (w / 2)),
         Num (vx point + vx normal * (w / 2)), height, Num (vz point + vz normal * (w / 2))])"
  using assms by (simp add: ribbonPair_def sampleParam_valid Let_def)

lemma vertexAt_pairs:
  assumes "i < k"
  shows "vertexAt (concat (map (ribbonPair w n c h) [0..<k])) (2 * i)
      = [ribbonPair w n c h i ! 0, ribbonPair w n c h i ! 1, ribbonPair w n c h i ! 2]"
    and "vertexAt (concat (map (ribbonPair w n c h) [0..<k])) (2 * i + 1)
      = [ribbonPair w n c h i ! 3, ribbonPair w n c h i ! 4, ribbonPair w n c h i ! 5]"
proof -
  let ?ps = "concat (map (ribbonPair w n c h) [0..<k])"
  have e: "3 * (2 * i) = 6 * i + 0" "3 * (2 * i) + 1 = 6 * i + 1" "3 * (2 * i) + 2 = 6 * i + 2"
    "3 * (2 * i + 1) = 6 * i + 3" "3 * (2 * i + 1) + 1 = 6 * i + 4" "3 * (2 * i + 1) + 2 = 6 * i + 5"
    by simp_all
  have p: "\<And>j. j < 6 \<Longrightarrow> ?ps ! (6 * i + j) = ribbonPair w n c h i ! j"
    by (rule nth_concat_pairs [OF assms])
  have q: "?ps ! (6 * i + 0) = ribbonPair w n c h i ! 0" "?ps ! (6 * i + 1) = ribbonPair w n c h i ! 1"
    "?ps ! (6 * i + 2) = ribbonPair w n c h i ! 2" "?ps ! (6 * i + 3) = ribbonPair w n c h i ! 3"
    "?ps ! (6 * i + 4) = ribbonPair w n c h i ! 4" "?ps ! (6 * i + 5) = ribbonPair w n c h i ! 5"
    by (rule p, simp)+
  show "vertexAt ?ps (2 * i)
      = [ribbonPair w n c h i ! 0, ribbonPair w n c h i ! 1, ribbonPair w n c h i ! 2]"
    using q unfolding vertexAt_def by simp
  show "vertexAt ?ps (2 * i + 1)
      = [ribbonPair w n c h i ! 3, ribbonPair w n c h i ! 4, ribbonPair w n c h i ! 5]"
    using q unfolding vertexAt_def by (simp add: algebra_simps)
qed

lemma scenario_positions:
  "createRoad_with straightPath flatHeight scenarioPoints 4 2 =
     Inr (map Num [2, 0.2, 0, - 2, 0.2, 0, 2, 0.2, 5, - 2, 0.2, 5, 2, 0.2, 10, - 2, 0.2, 10])"
  by (simp add: createRoad_with_pairs upt_3 ribbonPair_def sampleParam_valid scenario_curve
      roadNormal_z flatHeight_def clearance_def Let_def)

lemma length_controlPoints_road: "length controlPoints_road = 10"
  by (simp add: controlPoints_road_def)

subsection \<open>Vertex count\<close>

text \<open>
  Claim C3. For every control-point list and every segment count of at least 1, the
  position buffer is the sequence of the pairs of the sample indices
  \<open>0, \<dots>, roadSegments\<close>, one pair each, and so holds \<open>2 * (roadSegments + 1)\<close>
  vertices.
\<close>

theorem road_vertex_count:
  assumes "1 \<le> roadSegments"
  shows "createRoad_with CurvePath getHeight controlPoints roadWidth roadSegments =
      Inr (concat (map (ribbonPair roadWidth roadSegments
              (CurvePath (curveSegments controlPoints)) getHeight) [0..<nat roadSegments + 1]))
    \<and> (\<forall>positions.
          createRoad_with CurvePath getHeight controlPoints roadWidth roadSegments = Inr positions
          \<longrightarrow> int (vertexCount positions) = 2 * (roadSegments + 1))"
proof -
  let ?ps = "concat (map (ribbonPair roadWidth roadSegments
    (CurvePath (curveSegments controlPoints)) getHeight) [0..<nat roadSegments + 1])"
  have n: "nat (roadSegments + 1) = nat roadSegments + 1"
    using assms by simp
  have eq: "createRoad_with CurvePath getHeight controlPoints roadWidth roadSegments = Inr ?ps"
    unfolding n [symmetric] by (rule createRoad_with_pairs)
  have "length ?ps = 6 * (nat roadSegments + 1)"
    by (rule length_concat_pairs)
  then have "vertexCount ?ps = 2 * (nat roadSegments + 1)"
    unfolding vertexCount_def by simp
  then have "int (vertexCount ?ps) = 2 * (roadSegments + 1)"
    using assms by simp
  with eq show ?thesis
    by simp
qed

theorem road_vertex_count_witness:
  "(1 :: int) \<le> 2
   \<and> vertexCount (concat (map (ribbonPair 4 2 (straightPath (curveSegments scenarioPoints))
         flatHeight) [0..<nat 2 + 1])) = 6"
  using road_vertex_count [of 2 straightPath flatHeight scenarioPoints 4] by simp

subsection \<open>Vertex elevation\<close>

text \<open>
  Claim C8. For every sample index \<open>i\<close> and both vertices \<open>j\<close> of its pair, the second
  coordinate of the vertex is the height field at the sampled centre-line point plus the
  clearance 0.2, hence 0.2 over the flat field; and the ribbon of width 4 with 2
  segments over the control points \<open>(0, 0, 0)\<close>, \<open>(0, 0, 10)\<close> has the six vertices
  listed, at \<open>x = 2\<close> and \<open>x = -2\<close> for \<open>z = 0, 5, 10\<close>.
\<close>

theorem road_vertex_height:
  assumes "1 \<le> roadSegments" and "i \<le> nat roadSegments" and "j < 2"
  shows "(\<exists>positions.
        createRoad_with CurvePath getHeight controlPoints roadWidth roadSegments = Inr positions
        \<and> (let point = getPoint (CurvePath (curveSegments controlPoints))
                  (Num (real i / real_of_int roadSegments))
           in positions ! ((i * 2 + j) * 3 + 1)
                = js_plus (getHeight (vx point) (vz point)) (Num clearance)
            \<and> (getHeight = flatHeight \<longrightarrow> positions ! ((i * 2 + j) * 3 + 1) = Num 0.2)))
    \<and> createRoad_with straightPath flatHeight scenarioPoints 4 2 =
        Inr (map Num [2, 0.2, 0, - 2, 0.2, 0, 2, 0.2, 5, - 2, 0.2, 5, 2, 0.2, 10, - 2, 0.2, 10])"
proof -
  let ?c = "CurvePath (curveSegments controlPoints)"
  let ?ps = "concat (map (ribbonPair roadWidth roadSegments ?c getHeight)
    [0..<nat (roadSegments + 1)])"
  have i: "i < nat (roadSegments + 1)"
    using assms by simp
  have idx: "(i * 2 + j) * 3 + 1 = 6 * i + (3 * j + 1)" "3 * j + 1 < 6"
    using assms(3) by simp_all
  have j: "j = 0 \<or> j = 1"
    using assms(3) by auto
  have y: "?ps ! ((i * 2 + j) * 3 + 1)
      = js_plus (getHeight (vx (getPoint ?c (Num (real i / real_of_int roadSegments))))
          (vz (getPoint ?c (Num (real i / real_of_int roadSegments))))) (Num clearance)"
    unfolding idx(1) nth_concat_pairs [OF i idx(2)]
    using j by (auto simp: ribbonPair_nth [OF assms(1)] Let_def)
  have flat: "getHeight = flatHeight \<longrightarrow> ?ps ! ((i * 2 + j) * 3 + 1) = Num 0.2"
    using y by (auto simp: flatHeight_def clearance_def)
  have eq: "createRoad_with CurvePath getHeight controlPoints roadWidth roadSegments = Inr ?ps"
    by (rule createRoad_with_pairs)
  show ?thesis
    unfolding Let_def
    by (intro conjI exI [of _ ?ps]) (rule eq y flat scenario_positions)+
qed

theorem road_vertex_height_witness:
  "(1 :: int) \<le> 2 \<and> (1 :: nat) \<le> nat 2 \<and> (0 :: nat) < 2
   \<and> map Num [2, 0.2, 0, - 2, 0.2, 0, 2, 0.2, 5, - 2, 0.2, 5, 2, 0.2, 10, - 2, 0.2, 10]
        ! ((1 * 2 + 0) * 3 + 1) = Num 0.2"
  using road_vertex_height [of 2 1 0 straightPath flatHeight scenarioPoints 4] by simp

subsection \<open>Width of the ribbon\<close>

lemma vertical_curve:
  "getPoint (straightPath (curveSegments verticalPoints)) (Num r) = Vector3 0 (r * 10) 0"
  "getTangent (straightPath (curveSegments verticalPoints)) t = Vector3 0 1 0"
  by (simp_all add: straightPath_def curveSegments_def verticalPoints_def lerp3_def
      normalize_def vec_length_def sqrt_100 Let_def)

text \<open>
  Claim C9 as stated fails where the curve runs straight up: over the control points
  \<open>(0, 0, 0)\<close>, \<open>(0, 10, 0)\<close> the tangent has no horizontal component, the normal is
  the zero vector, and with width 4 and 2 segments both vertices of every pair lie on
  the centre line, at distance 0 from each other.
\<close>

theorem road_pair_distance_counterexample:
  "createRoad_with straightPath flatHeight verticalPoints 4 2 =
     Inr (map Num [0, 0.2, 0, 0, 0.2, 0, 0, 0.2, 0, 0, 0.2, 0, 0, 0.2, 0, 0, 0.2, 0])
   \<and> distance3 (Vector3 0 0.2 0) (Vector3 0 0.2 0) = 0
   \<and> distance3 (Vector3 0 0.2 0) (Vector3 0 0.2 0) \<noteq> 4"
proof -
  have n: "roadNormal (Vector3 0 1 0) = Vector3 0 0 0"
    by (rule roadNormal_degenerate) simp_all
  show ?thesis
    by (simp add: createRoad_with_pairs upt_3 ribbonPair_def sampleParam_valid vertical_curve
        n flatHeight_def clearance_def Let_def distance3_def vec_length_def)
qed

text \<open>
  Claim C9, as amended. At every sample index whose tangent has a horizontal component
  and whose elevation is finite, the two vertices of the pair are the centre-line point
  moved by \<open>normalize (-tangent.z, 0, tangent.x) * (roadWidth / 2)\<close> to either side, at
  the same elevation, and their distance is the width.
\<close>

theorem road_pair_distance:
  assumes "1 \<le> roadSegments" and "i \<le> nat roadSegments" and "0 \<le> roadWidth"
  shows "let t = Num (real i / real_of_int roadSegments);
             roadCurve = CurvePath (curveSegments controlPoints);
             point = getPoint roadCurve t;
             tangent = getTangent roadCurve t;
             normal = normalize (Vector3 (- vz tangent) 0 (vx tangent))
         in \<forall>y. (vx tangent \<noteq> 0 \<or> vz tangent \<noteq> 0) \<and> getHeight (vx point) (vz point) = Num y \<longrightarrow>
              (\<exists>positions left right.
                 createRoad_with CurvePath getHeight controlPoints roadWidth roadSegments
                   = Inr positions
                 \<and> left = Vector3 (vx point - vx normal * (roadWidth / 2)) (y + clearance)
                            (vz point - vz normal * (roadWidth / 2))
                 \<and> right = Vector3 (vx point + vx normal * (roadWidth / 2)) (y + clearance)
                            (vz point + vz normal * (roadWidth / 2))
                 \<and> vertexAt positions (2 * i) = jsvec left
                 \<and> vertexAt positions (2 * i + 1) = jsvec right
                 \<and> distance3 left right = roadWidth)"
proof -
  let ?c = "CurvePath (curveSegments controlPoints)"
  let ?t = "Num (real i / real_of_int roadSegments)"
  have i: "i < nat (roadSegments + 1)"
    using assms by simp
  {
    fix y
    assume nd: "vx (getTangent ?c ?t) \<noteq> 0 \<or> vz (getTangent ?c ?t) \<noteq> 0"
      and fin: "getHeight (vx (getPoint ?c ?t)) (vz (getPoint ?c ?t)) = Num y"
    note u = roadNormal_unit [OF nd]
    have d: "distance3
        (Vector3 (vx (getPoint ?c ?t) - vx (roadNormal (getTangent ?c ?t)) * (roadWidth / 2))
           (y + clearance)
           (vz (getPoint ?c ?t) - vz (roadNormal (getTangent ?c ?t)) * (roadWidth / 2)))
        (Vector3 (vx (getPoint ?c ?t) + vx (roadNormal (getTangent ?c ?t)) * (roadWidth / 2))
           (y + clearance)
           (vz (getPoint ?c ?t) + vz (roadNormal (getTangent ?c ?t)) * (roadWidth / 2)))
        = roadWidth"
      by (rule pair_distance [OF u(1) assms(3)])
    have "vertexAt (concat (map (ribbonPair roadWidth roadSegments ?c getHeight)
          [0..<nat (roadSegments + 1)])) (2 * i)
        = jsvec (Vector3 (vx (getPoint ?c ?t) - vx (roadNormal (getTangent ?c ?t)) * (roadWidth / 2))
           (y + clearance)
           (vz (getPoint ?c ?t) - vz (roadNormal (getTangent ?c ?t)) * (roadWidth / 2)))"
      and "vertexAt (concat (map (ribbonPair roadWidth roadSegments ?c getHeight)
          [0..<nat (roadSegments + 1)])) (2 * i + 1)
        = jsvec (Vector3 (vx (getPoint ?c ?t) + vx (roadNormal (getTangent ?c ?t)) * (roadWidth / 2))
           (y + clearance)
           (vz (getPoint ?c ?t) + vz (roadNormal (getTangent ?c ?t)) * (roadWidth / 2)))"
      unfolding vertexAt_pairs [OF i]
      by (simp_all add: ribbonPair_nth [OF assms(1)] Let_def fin jsvec_def)
    note this d
  }
  then show ?thesis
    by (simp add: Let_def createRoad_with_pairs roadNormal_def [symmetric])
qed

theorem road_pair_distance_witness:
  "(1 :: int) \<le> 2 \<and> (1 :: nat) \<le> nat 2 \<and> (0 :: real) \<le> 4
   \<and> distance3 (Vector3 2 0.2 5) (Vector3 (- 2) 0.2 5) = 4"
  using road_pair_distance [of 2 1 4 straightPath scenarioPoints flatHeight]
  by (auto simp: Let_def scenario_curve roadNormal_def [symmetric] roadNormal_z
      flatHeight_def clearance_def)

subsection \<open>No validation of the inputs\<close>

text \<open>
  Claim C2 as stated fails: with two control points and the segment count \<open>-1\<close> the
  body of \<^verbatim>\<open>createRoad\<close> leaves an empty position buffer and reports nothing.
\<close>

theorem createRoad_invalid_input_counterexample:
  "createRoad_with straightPath flatHeight scenarioPoints 4 (- 1) = Inr []
   \<and> createRoad_with straightPath flatHeight scenarioPoints 4 (- 1) \<noteq> Inl InvalidInput"
  by (simp add: createRoad_with_pairs)

text \<open>
  Claim C2, as amended. \<^verbatim>\<open>createRoad\<close> has no \<open>InvalidInput\<close> check. Its body,
  run with at least two control points and a negative segment count, does not fail: it
  leaves an empty position buffer.
\<close>

theorem createRoad_negative_segments:
  assumes "2 \<le> length controlPoints" and "roadSegments < 0"
  shows "createRoad_with CurvePath getHeight controlPoints roadWidth roadSegments = Inr []"
  using assms(2) by (simp add: createRoad_with_pairs)

theorem createRoad_negative_segments_witness:
  "2 \<le> length scenarioPoints \<and> (- 3 :: int) < 0
   \<and> createRoad_with straightPath flatHeight scenarioPoints 15 (- 3) = Inr []"
proof -
  have l: "2 \<le> length scenarioPoints"
    by (simp add: scenarioPoints_def)
  have n: "(- 3 :: int) < 0"
    by simp
  show ?thesis
    using l createRoad_negative_segments [OF l n, of straightPath flatHeight 15] by simp
qed

text \<open>
  The method itself takes no arguments: it runs this body on its own ten control points
  with width 15 and 100 segments.
\<close>

lemma createRoad_constants:
  "createRoad CurvePath getHeight = createRoad_with CurvePath getHeight controlPoints_road 15 100"
  "length controlPoints_road = 10"
  by (simp_all add: createRoad_def length_controlPoints_road)

end
